theory Spec2Isabelle
  imports Main
begin

section \<open>The request and response schemas of \<^verbatim>\<open>backend/app/main.py\<close>\<close>

text \<open>
  The pydantic models of the service, one record each. A Python \<^verbatim>\<open>str\<close> is a
  \<^typ>\<open>string\<close>, one \<^typ>\<open>char\<close> standing for one character of the Python string, and
  an \<^verbatim>\<open>Optional\<close> field is an \<^typ>\<open>'a option\<close>.
\<close>

record ChatMessage =
  role :: string
  content :: string

record ChatRequest =
  doc_id :: string
  question :: string
  history :: "ChatMessage list option"

record Source =
  page_number :: "int option"
  snippet :: string

record ChatResponse =
  answer :: string
  sources :: "Source list option"

section \<open>Exceptions and the outcome of a handler\<close>

text \<open>
  A Python exception is its class name and the text \<^verbatim>\<open>str(e)\<close> gives. A handler either
  returns a value, raises \<^verbatim>\<open>HTTPException(status_code, detail)\<close> itself, or lets an
  exception of a callee leave it unhandled; what the web framework does with the last is
  outside this file.
\<close>

datatype exc = Exc (exc_class: string) (exc_text: string)

datatype 'a outcome =
    Return 'a
  | HTTPException nat string
  | Propagate exc

section \<open>The collaborators of \<^verbatim>\<open>app.rag_pipeline\<close>\<close>

text \<open>
  \<^verbatim>\<open>build_qa_chain(doc_id)\<close> raises or returns a chain; the chain's \<^verbatim>\<open>invoke(prompt)\<close>
  raises or returns a dictionary, read by the handler at the keys \<^verbatim>\<open>"answer"\<close> (with
  \<^verbatim>\<open>result["answer"]\<close>, a \<^verbatim>\<open>KeyError\<close> when it is missing) and
  \<^verbatim>\<open>"source_documents"\<close> (with \<^verbatim>\<open>result.get\<close>, the empty list when it is missing).
  A source document has a text and a metadata dictionary, whose values are taken to be
  integers, as the \<^verbatim>\<open>Source\<close> schema declares the one entry that is read.
\<close>

record Document =
  page_content :: string
  metadata :: "string \<rightharpoonup> int"

record invoke_result =
  result_answer :: "string option"
  source_documents :: "Document list option"

type_synonym chain = "string \<Rightarrow> exc + invoke_result"

section \<open>The world the handlers act on\<close>

text \<open>
  JSON values as \<^verbatim>\<open>json.load\<close> returns them. An object is an association list, since
  a Python dictionary keeps the order of insertion and \<^verbatim>\<open>json.dump\<close> writes in it. A
  float is kept as the text of its literal.
\<close>

datatype json =
    JNull
  | JBool bool
  | JInt int
  | JFloat string
  | JString string
  | JArray "json list"
  | JObject "(string \<times> json) list"

text \<open>
  What \<^verbatim>\<open>data/conversations.json\<close> holds, by what reading it with
  \<^verbatim>\<open>open(DATA_FILE, "r", encoding="utf-8")\<close> and \<^verbatim>\<open>json.load\<close> does:
  \<^item> \<open>Undecodable t\<close>: bytes that are not UTF-8; reading raises \<^verbatim>\<open>UnicodeDecodeError\<close>
    with text \<open>t\<close>;
  \<^item> \<open>Malformed b\<close>: text \<open>b\<close> that is not JSON; \<^verbatim>\<open>json.load\<close> raises
    \<^verbatim>\<open>json.JSONDecodeError\<close>;
  \<^item> \<open>JsonText v\<close>: the text of the JSON value \<open>v\<close>, which \<^verbatim>\<open>json.load\<close> returns and
    \<^verbatim>\<open>json.dump(v, f, indent=2, ensure_ascii=False)\<close> writes.
  Strings are taken to be encodable in UTF-8, so that writing a value does not fail.
\<close>

datatype file_content =
    Undecodable string
  | Malformed string
  | JsonText json

text \<open>The calls made to the collaborators, in order.\<close>

datatype call =
    IngestPdf string
  | BuildQaChain string
  | Invoke string

text \<open>
  The state outside the handlers: the log file \<^verbatim>\<open>DATA_FILE\<close> (\<open>None\<close> when it does not
  exist), the other files by path with their bytes, the paths \<^verbatim>\<open>open(path, "wb")\<close>
  fails on (the path comes from the client: it may name a directory, or lie in one that
  does not exist) with the error each raises, the lines printed to the console, and the
  calls made to the collaborators. Directories are not part of the state:
  \<^verbatim>\<open>os.makedirs(temp_dir, exist_ok=True)\<close> leaves the files as they are.
\<close>

record world =
  data_file :: "file_content option"
  files :: "string \<rightharpoonup> string"
  unwritable :: "string \<Rightarrow> exc option"
  console :: "string list"
  calls :: "call list"

section \<open>\<^verbatim>\<open>save_interaction\<close>\<close>

text \<open>
  The record of one interaction; \<open>now\<close> is \<^verbatim>\<open>datetime.now().isoformat()\<close> at the call.
\<close>

definition interaction_record :: "string \<Rightarrow> string \<Rightarrow> string \<Rightarrow> string \<Rightarrow> json" where
  "interaction_record now d q a =
     JObject [(''timestamp'', JString now), (''doc_id'', JString d),
              (''question'', JString q), (''answer'', JString a)]"

text \<open>
  Lines 58 to 64: the conversations start empty; an existing file is loaded, and only a
  \<^verbatim>\<open>json.JSONDecodeError\<close> is caught.
\<close>

definition load_conversations :: "world \<Rightarrow> exc + json" where
  "load_conversations w =
     (case data_file w of
        None \<Rightarrow> Inr (JArray [])
      | Some (Undecodable t) \<Rightarrow> Inl (Exc ''UnicodeDecodeError'' t)
      | Some (Malformed b) \<Rightarrow> Inr (JArray [])
      | Some (JsonText v) \<Rightarrow> Inr v)"

text \<open>The name of the Python type of a loaded JSON value, for the error text.\<close>

fun type_name :: "json \<Rightarrow> string" where
  "type_name JNull = ''NoneType''"
| "type_name (JBool b) = ''bool''"
| "type_name (JInt i) = ''int''"
| "type_name (JFloat f) = ''float''"
| "type_name (JString s) = ''str''"
| "type_name (JArray xs) = ''list''"
| "type_name (JObject kvs) = ''dict''"

text \<open>
  Line 66, \<^verbatim>\<open>conversations.append(record)\<close>: only a list has \<^verbatim>\<open>append\<close>.
\<close>

definition append_record :: "json \<Rightarrow> json \<Rightarrow> exc + json" where
  "append_record conversations record =
     (case conversations of
        JArray xs \<Rightarrow> Inr (JArray (xs @ [record]))
      | _ \<Rightarrow> Inl (Exc ''AttributeError''
                 ([CHR 0x27] @ type_name conversations @ [CHR 0x27] @
                  '' object has no attribute '' @ [CHR 0x27] @ ''append'' @ [CHR 0x27])))"

definition save_interaction ::
    "string \<Rightarrow> string \<Rightarrow> string \<Rightarrow> string \<Rightarrow> world \<Rightarrow> exc + world" where
  "save_interaction now d q a w =
     (case load_conversations w of
        Inl e \<Rightarrow> Inl e
      | Inr conversations \<Rightarrow>
          (case append_record conversations (interaction_record now d q a) of
             Inl e \<Rightarrow> Inl e
           | Inr conversations' \<Rightarrow> Inr (w\<lparr>data_file := Some (JsonText conversations')\<rparr>)))"

section \<open>\<^verbatim>\<open>chat_with_doc\<close>\<close>

text \<open>
  Lines 111 to 113, the loop over the history: \<open>history_text\<close> is the accumulator.
\<close>

fun format_history :: "string \<Rightarrow> ChatMessage list \<Rightarrow> string" where
  "format_history history_text [] = history_text"
| "format_history history_text (msg # msgs) =
     format_history
       (history_text @
        (if role msg = ''user'' then ''User'' else ''Assistant'') @ '': '' @ content msg @
        [CHR 0x0A])
       msgs"

text \<open>
  Lines 109 to 115. \<^verbatim>\<open>if request.history:\<close> is false for \<^verbatim>\<open>None\<close> and for the empty list.
\<close>

definition question_with_history :: "ChatRequest \<Rightarrow> string" where
  "question_with_history request =
     (let history_text =
        (case history request of
           None \<Rightarrow> ''''
         | Some msgs \<Rightarrow> if msgs = [] then '''' else format_history '''' msgs)
      in history_text @ ''User: '' @ question request)"

text \<open>
  Lines 123 to 130, the loop over the source documents; \<open>srcs\<close> is the list
  \<^verbatim>\<open>sources\<close> built so far.
\<close>

fun extract_sources :: "Source list \<Rightarrow> Document list \<Rightarrow> Source list" where
  "extract_sources srcs [] = srcs"
| "extract_sources srcs (doc # docs) =
     extract_sources
       (srcs @ [\<lparr>page_number = metadata doc ''page_number'',
                    snippet = take 200 (page_content doc) @ ''...''\<rparr>])
       docs"

text \<open>
  The handler. \<open>now\<close> is the clock's reading when the interaction is saved. Only the
  chain's construction and the saving of the interaction stand in a \<^verbatim>\<open>try\<close>.
\<close>

definition chat_with_doc ::
    "(string \<Rightarrow> exc + chain) \<Rightarrow> string \<Rightarrow> ChatRequest \<Rightarrow> world \<Rightarrow> ChatResponse outcome \<times> world" where
  "chat_with_doc build_qa_chain now request w =
     (let w1 = w\<lparr>calls := calls w @ [BuildQaChain (doc_id request)]\<rparr> in
      case build_qa_chain (doc_id request) of
        Inl e \<Rightarrow> (HTTPException 500 (''Error building QA chain: '' @ exc_text e), w1)
      | Inr qa_chain \<Rightarrow>
          (let prompt = question_with_history request;
               w2 = w1\<lparr>calls := calls w1 @ [Invoke prompt]\<rparr> in
           case qa_chain prompt of
             Inl e \<Rightarrow> (Propagate e, w2)
           | Inr result \<Rightarrow>
               (case result_answer result of
                  None \<Rightarrow> (Propagate (Exc ''KeyError'' ([CHR 0x27] @ ''answer'' @ [CHR 0x27])), w2)
                | Some ans \<Rightarrow>
                    (let srcs = extract_sources []
                           (case source_documents result of None \<Rightarrow> [] | Some docs \<Rightarrow> docs);
                         w3 = (case save_interaction now (doc_id request) (question request) ans w2 of
                                 Inl e \<Rightarrow> w2\<lparr>console := console w2 @
                                            [''Error saving interaction: '' @ exc_text e]\<rparr>
                               | Inr w' \<Rightarrow> w')
                     in (Return \<lparr>answer = ans, sources = Some srcs\<rparr>, w3)))))"

section \<open>\<^verbatim>\<open>upload_pdf\<close>\<close>

text \<open>
  The upload as the framework hands it over: the declared content type (absent when the
  part declares none), the client's file name, and the bytes of \<^verbatim>\<open>file.file\<close>.
\<close>

record UploadFile =
  content_type :: "string option"
  filename :: string
  file_data :: string

text \<open>The dictionary the handler returns.\<close>

record upload_result =
  result_doc_id :: string
  message :: string

text \<open>
  \<^verbatim>\<open>os.path.join(a, b)\<close> for one component on POSIX: an absolute \<open>b\<close> replaces \<open>a\<close>;
  otherwise \<open>b\<close> follows \<open>a\<close>, after a separator unless \<open>a\<close> is empty or ends in one.
\<close>

definition path_join :: "string \<Rightarrow> string \<Rightarrow> string" where
  "path_join a b =
     (if b \<noteq> [] \<and> hd b = CHR ''/'' then b
      else if a = [] \<or> last a = CHR ''/'' then a @ b
      else a @ ''/'' @ b)"

text \<open>
  The handler. \<open>ingest_pdf\<close> is the collaborator: called with the path, it may read and
  change the files, and raises or returns the document's identifier. The file is written
  before the \<^verbatim>\<open>try\<close>; the \<^verbatim>\<open>finally\<close> removes it if it still exists.
\<close>

definition upload_pdf ::
    "(string \<Rightarrow> (string \<rightharpoonup> string) \<Rightarrow> (exc + string) \<times> (string \<rightharpoonup> string)) \<Rightarrow>
     UploadFile \<Rightarrow> world \<Rightarrow> upload_result outcome \<times> world" where
  "upload_pdf ingest_pdf upload w =
     (if content_type upload \<noteq> Some ''application/pdf''
      then (HTTPException 400 ''File must be a PDF.'', w)
      else
        (let file_path = path_join ''tmp_uploads'' (filename upload) in
         case unwritable w file_path of
           Some e \<Rightarrow> (Propagate e, w)
         | None \<Rightarrow>
             (let w1 = w\<lparr>files := (files w)(file_path \<mapsto> file_data upload)\<rparr>;
                  (r, fs) = ingest_pdf file_path (files w1);
                  w2 = w1\<lparr>files := (if fs file_path \<noteq> None then fs(file_path := None) else fs),
                          calls := calls w1 @ [IngestPdf file_path]\<rparr>
              in case r of
                   Inl e \<Rightarrow> (HTTPException 500 (exc_text e), w2)
                 | Inr d \<Rightarrow> (Return \<lparr>result_doc_id = d,
                                      message = ''PDF processed successfully''\<rparr>, w2))))"

section \<open>Sequences of calls and sample inputs\<close>

text \<open>
  \<^verbatim>\<open>save_interaction\<close> called once for each element of a list, in order, each element
  being the clock's reading and the three arguments; the first call that raises ends the
  run.
\<close>

fun save_interactions ::
    "(string \<times> string \<times> string \<times> string) list \<Rightarrow> world \<Rightarrow> exc + world" where
  "save_interactions [] w = Inr w"
| "save_interactions ((now, d, q, a) # rest) w =
     (case save_interaction now d q a w of
        Inl e \<Rightarrow> Inl e
      | Inr w' \<Rightarrow> save_interactions rest w')"

text \<open>A world with no log file, no other file, every path writable and nothing printed.\<close>

definition empty_world :: world where
  "empty_world =
     \<lparr>data_file = None, files = Map.empty, unwritable = (\<lambda>p. None), console = [], calls = []\<rparr>"

text \<open>A request with no history, and one with a single earlier turn.\<close>

definition plain_request :: ChatRequest where
  "plain_request = \<lparr>doc_id = ''doc1'', question = ''What is X?'', history = None\<rparr>"


text \<open>A source document of 250 characters on page 3, and a short one with no page.\<close>

definition long_doc :: Document where
  "long_doc = \<lparr>page_content = replicate 250 CHR ''a'', metadata = [''page_number'' \<mapsto> 3]\<rparr>"

definition short_doc :: Document where
  "short_doc = \<lparr>page_content = ''short'', metadata = Map.empty\<rparr>"

text \<open>A chain builder whose chain always gives the same result, and one whose chain raises.\<close>

definition answering :: "invoke_result \<Rightarrow> string \<Rightarrow> exc + chain" where
  "answering result d = Inr (\<lambda>prompt. Inr result)"

definition failing_chain :: "string \<Rightarrow> exc + chain" where
  "failing_chain d = Inr (\<lambda>prompt. Inl (Exc ''RuntimeError'' ''boom''))"


definition ingest_ok :: "string \<Rightarrow> (string \<rightharpoonup> string) \<Rightarrow> (exc + string) \<times> (string \<rightharpoonup> string)" where
  "ingest_ok path fs = (Inr ''doc1'', fs)"


section \<open>Facts about the loops and the log\<close>


lemma extract_sources_map:
  "extract_sources srcs docs =
     srcs @ map (\<lambda>doc. \<lparr>page_number = metadata doc ''page_number'',
                          snippet = take 200 (page_content doc) @ ''...''\<rparr>) docs"
  by (induction docs arbitrary: srcs) simp_all

text \<open>Saving reads and writes the log file only; the calls made so far do not matter to it.\<close>

lemma save_interaction_calls:
  "save_interaction now d q a (w\<lparr>calls := c\<rparr>) =
     (case save_interaction now d q a w of Inl e \<Rightarrow> Inl e | Inr w' \<Rightarrow> Inr (w'\<lparr>calls := c\<rparr>))"
  by (simp add: save_interaction_def load_conversations_def
      split: option.splits file_content.splits sum.splits)

lemma save_interaction_fails_calls:
  "save_interaction now d q a w = Inl e \<Longrightarrow> save_interaction now d q a (w\<lparr>calls := c\<rparr>) = Inl e"
  by (simp add: save_interaction_calls)


lemma save_interaction_appends:
  "load_conversations w = Inr (JArray xs) \<Longrightarrow>
   save_interaction now d q a w =
     Inr (w\<lparr>data_file := Some (JsonText (JArray (xs @ [interaction_record now d q a])))\<rparr>)"
  by (simp add: save_interaction_def append_record_def)

lemma load_conversations_written:
  "load_conversations (w\<lparr>data_file := Some (JsonText v)\<rparr>) = Inr v"
  by (simp add: load_conversations_def)

lemma save_interactions_appends:
  "load_conversations w = Inr (JArray xs) \<Longrightarrow>
   \<exists>w'. save_interactions cs w = Inr w' \<and>
        load_conversations w' =
          Inr (JArray (xs @ map (\<lambda>(now, d, q, a). interaction_record now d q a) cs))"
proof (induction cs arbitrary: w xs)
  case Nil
  then show ?case by simp
next
  case (Cons c cs)
  obtain now d q a where c: "c = (now, d, q, a)"
    by (cases c) auto
  let ?w1 = "w\<lparr>data_file := Some (JsonText (JArray (xs @ [interaction_record now d q a])))\<rparr>"
  have step: "save_interaction now d q a w = Inr ?w1"
    using Cons.prems by (rule save_interaction_appends)
  have "load_conversations ?w1 = Inr (JArray (xs @ [interaction_record now d q a]))"
    by (rule load_conversations_written)
  from Cons.IH [OF this] show ?case
    by (simp add: c step)
qed

lemma interaction_record_fields:
  "(\<lambda>(now, d, q, a). interaction_record now d q a) =
   (\<lambda>(now, d, q, a). JObject [(''timestamp'', JString now), (''doc_id'', JString d),
                               (''question'', JString q), (''answer'', JString a)])"
  by (simp add: interaction_record_def fun_eq_iff)

section \<open>Facts about \<^verbatim>\<open>chat_with_doc\<close>\<close>


lemma chat_with_doc_return:
  "build_qa_chain (doc_id request) = Inr qa_chain \<Longrightarrow>
   qa_chain (question_with_history request) = Inr result \<Longrightarrow>
   result_answer result = Some ans \<Longrightarrow>
   fst (chat_with_doc build_qa_chain now request w) =
     Return \<lparr>answer = ans,
             sources = Some (extract_sources []
               (case source_documents result of None \<Rightarrow> [] | Some docs \<Rightarrow> docs))\<rparr>"
  by (simp add: chat_with_doc_def Let_def)

text \<open>A failure to build the chain becomes a 500 whose detail wraps the error's text.\<close>

lemma chat_build_failure:
  "build_qa_chain (doc_id request) = Inl e \<Longrightarrow>
   chat_with_doc build_qa_chain now request w =
     (HTTPException 500 (''Error building QA chain: '' @ exc_text e),
      w\<lparr>calls := calls w @ [BuildQaChain (doc_id request)]\<rparr>)"
  by (simp add: chat_with_doc_def)

text \<open>A failure of the chain's \<^verbatim>\<open>invoke\<close> leaves the handler as it was raised.\<close>

lemma chat_invoke_failure:
  "build_qa_chain (doc_id request) = Inr qa_chain \<Longrightarrow>
   qa_chain (question_with_history request) = Inl e \<Longrightarrow>
   fst (chat_with_doc build_qa_chain now request w) = Propagate e"
  by (simp add: chat_with_doc_def Let_def)

section \<open>The claims\<close>



text \<open>
  Claim C2, at an input where it fails. The chain is built and its \<^verbatim>\<open>invoke\<close> raises
  \<^verbatim>\<open>RuntimeError("boom")\<close>: the handler raises no \<^verbatim>\<open>HTTPException\<close>; the error leaves
  it unwrapped, after the two calls and with nothing logged or printed.
\<close>

theorem chat_invoke_failure_not_wrapped:
  "chat_with_doc failing_chain ''2026-01-01T00:00:00'' plain_request empty_world =
     (Propagate (Exc ''RuntimeError'' ''boom''),
      empty_world\<lparr>calls := [BuildQaChain ''doc1'', Invoke ''User: What is X?'']\<rparr>)"
  by (simp add: chat_with_doc_def failing_chain_def plain_request_def empty_world_def
      question_with_history_def)

text \<open>
  Claim C3. Starting with no log file, \<open>N\<close> calls of \<^verbatim>\<open>save_interaction\<close> all return, and
  the log then reads as a JSON array of exactly \<open>N\<close> records in the order of the calls,
  each with exactly the fields \<^verbatim>\<open>timestamp\<close>, \<^verbatim>\<open>doc_id\<close>, \<^verbatim>\<open>question\<close>, \<^verbatim>\<open>answer\<close> holding
  the call's values. No later call changes or removes an earlier record: after the first
  \<open>k\<close> calls the log is the first \<open>k\<close> records of the final log.
\<close>

theorem save_interactions_round_trip:
  assumes "data_file w = None"
  shows "\<exists>w' log.
           save_interactions cs w = Inr w' \<and>
           load_conversations w' = Inr (JArray log) \<and>
           length log = length cs \<and>
           log = map (\<lambda>(now, d, q, a).
                    JObject [(''timestamp'', JString now), (''doc_id'', JString d),
                             (''question'', JString q), (''answer'', JString a)]) cs \<and>
           (\<forall>k. \<exists>wk. save_interactions (take k cs) w = Inr wk \<and>
                      load_conversations wk = Inr (JArray (take k log)))"
proof -
  have start: "load_conversations w = Inr (JArray [])"
    using assms by (simp add: load_conversations_def)
  let ?log = "map (\<lambda>(now, d, q, a). interaction_record now d q a) cs"
  obtain w' where w': "save_interactions cs w = Inr w'"
      "load_conversations w' = Inr (JArray ?log)"
    using save_interactions_appends [OF start, of cs] by auto
  have prefix: "\<exists>wk. save_interactions (take k cs) w = Inr wk \<and>
                  load_conversations wk = Inr (JArray (take k ?log))" for k
    using save_interactions_appends [OF start, of "take k cs"] by (simp add: take_map)
  show ?thesis
    using w' prefix by (simp add: interaction_record_fields)
qed

theorem save_interactions_round_trip_witness:
  "\<exists>w'. save_interactions
           [(''2026-01-01T10:00:00'', ''doc1'', ''What is X?'', ''X is a letter.''),
            (''2026-01-01T10:05:00'', ''doc2'', ''And Y?'', ''Another letter.'')] empty_world = Inr w' \<and>
        load_conversations w' =
          Inr (JArray
            [JObject [(''timestamp'', JString ''2026-01-01T10:00:00''), (''doc_id'', JString ''doc1''),
                      (''question'', JString ''What is X?''), (''answer'', JString ''X is a letter.'')],
             JObject [(''timestamp'', JString ''2026-01-01T10:05:00''), (''doc_id'', JString ''doc2''),
                      (''question'', JString ''And Y?''), (''answer'', JString ''Another letter.'')]])"
  using save_interactions_round_trip
    [of empty_world
        "[(''2026-01-01T10:00:00'', ''doc1'', ''What is X?'', ''X is a letter.''),
          (''2026-01-01T10:05:00'', ''doc2'', ''And Y?'', ''Another letter.'')]"]
  by (auto simp: empty_world_def)

text \<open>
  Claim C4. When the chat succeeds, each source document of the result gives one
  \<^verbatim>\<open>Source\<close>, in order: its snippet is the first 200 characters of the document's
  \<^verbatim>\<open>page_content\<close> followed by \<^verbatim>\<open>"..."\<close>, whether or not anything was cut (a text
  of at most 200 characters is kept whole and still gets the suffix; a text of 250
  characters gives its first 200 and the suffix, 203 in all), and its page number is the
  \<^verbatim>\<open>page_number\<close> entry of the document's metadata when there is one, else absent.
\<close>

theorem chat_sources_snippet:
  assumes "build_qa_chain (doc_id request) = Inr qa_chain"
    and "qa_chain (question_with_history request) = Inr result"
    and "result_answer result = Some ans"
    and "source_documents result = Some docs"
  shows "\<exists>srcs. fst (chat_with_doc build_qa_chain now request w) =
                  Return \<lparr>answer = ans, sources = Some srcs\<rparr> \<and>
           srcs = map (\<lambda>doc. \<lparr>page_number = metadata doc ''page_number'',
                              snippet = take 200 (page_content doc) @ ''...''\<rparr>) docs \<and>
           (\<forall>i < length docs.
              (length (page_content (docs ! i)) \<le> 200 \<longrightarrow>
                 snippet (srcs ! i) = page_content (docs ! i) @ ''...'') \<and>
              (length (page_content (docs ! i)) = 250 \<longrightarrow>
                 length (snippet (srcs ! i)) = 203 \<and>
                 take 200 (snippet (srcs ! i)) = take 200 (page_content (docs ! i)) \<and>
                 drop 200 (snippet (srcs ! i)) = ''...''))"
  using chat_with_doc_return [of build_qa_chain request qa_chain result ans now w] assms
  by (simp add: extract_sources_map)

theorem chat_sources_snippet_witness:
  "fst (chat_with_doc
          (answering \<lparr>result_answer = Some ''42'', source_documents = Some [long_doc, short_doc]\<rparr>)
          ''2026-01-01T00:00:00'' plain_request empty_world) =
     Return \<lparr>answer = ''42'',
             sources = Some [\<lparr>page_number = Some 3, snippet = replicate 200 CHR ''a'' @ ''...''\<rparr>,
                             \<lparr>page_number = None, snippet = ''short...''\<rparr>]\<rparr>"
  using chat_sources_snippet
    [of "answering \<lparr>result_answer = Some ''42'', source_documents = Some [long_doc, short_doc]\<rparr>"
        plain_request
        "\<lambda>prompt. Inr \<lparr>result_answer = Some ''42'', source_documents = Some [long_doc, short_doc]\<rparr>"
        "\<lparr>result_answer = Some ''42'', source_documents = Some [long_doc, short_doc]\<rparr>"
        "''42''" "[long_doc, short_doc]" "''2026-01-01T00:00:00''" empty_world]
  by (simp add: answering_def long_doc_def short_doc_def)

text \<open>
  Claim C5. An upload whose declared content type is not exactly \<^verbatim>\<open>"application/pdf"\<close>
  is answered with status 400 and detail \<^verbatim>\<open>"File must be a PDF."\<close>, and the world is as
  before: no call to the ingestion collaborator, no file written.
\<close>

theorem upload_pdf_rejects_non_pdf:
  "content_type upload \<noteq> Some ''application/pdf'' \<Longrightarrow>
   upload_pdf ingest_pdf upload w = (HTTPException 400 ''File must be a PDF.'', w)"
  by (simp add: upload_pdf_def)

theorem upload_pdf_rejects_non_pdf_witness:
  "upload_pdf ingest_ok
     \<lparr>content_type = Some ''text/plain'', filename = ''notes.txt'', file_data = ''hello''\<rparr>
     empty_world =
   (HTTPException 400 ''File must be a PDF.'', empty_world)"
  using upload_pdf_rejects_non_pdf
    [of "\<lparr>content_type = Some ''text/plain'', filename = ''notes.txt'', file_data = ''hello''\<rparr>"
        ingest_ok empty_world]
  by simp



text \<open>
  Claim C7. When the chain is built and invoked and the result has its answer, an
  exception raised by \<^verbatim>\<open>save_interaction\<close> does not reach the client: the handler
  returns the response with the answer and the sources, and the only effect of the error
  is one line on the console, \<^verbatim>\<open>"Error saving interaction: "\<close> and the error's text.
\<close>

theorem chat_logging_failure_swallowed:
  assumes "build_qa_chain (doc_id request) = Inr qa_chain"
    and "qa_chain (question_with_history request) = Inr result"
    and "result_answer result = Some ans"
    and "save_interaction now (doc_id request) (question request) ans w = Inl e"
  shows "chat_with_doc build_qa_chain now request w =
           (Return \<lparr>answer = ans,
                    sources = Some (map (\<lambda>doc. \<lparr>page_number = metadata doc ''page_number'',
                                                snippet = take 200 (page_content doc) @ ''...''\<rparr>)
                                     (case source_documents result of
                                        None \<Rightarrow> [] | Some docs \<Rightarrow> docs))\<rparr>,
            w\<lparr>console := console w @ [''Error saving interaction: '' @ exc_text e],
              calls := calls w @ [BuildQaChain (doc_id request),
                                  Invoke (question_with_history request)]\<rparr>)"
  using assms(1-3) save_interaction_fails_calls [OF assms(4)]
  by (simp add: chat_with_doc_def Let_def extract_sources_map)

theorem chat_logging_failure_swallowed_witness:
  "chat_with_doc (answering \<lparr>result_answer = Some ''42'', source_documents = None\<rparr>)
     ''2026-01-01T00:00:00'' plain_request
     (empty_world\<lparr>data_file := Some (JsonText (JObject []))\<rparr>) =
   (Return \<lparr>answer = ''42'', sources = Some []\<rparr>,
    empty_world
      \<lparr>data_file := Some (JsonText (JObject [])),
       console := [''Error saving interaction: '' @ [CHR 0x27] @ ''dict'' @ [CHR 0x27] @
                   '' object has no attribute '' @ [CHR 0x27] @ ''append'' @ [CHR 0x27]],
       calls := [BuildQaChain ''doc1'', Invoke ''User: What is X?'']\<rparr>)"
  using chat_logging_failure_swallowed
    [of "answering \<lparr>result_answer = Some ''42'', source_documents = None\<rparr>" plain_request
        "\<lambda>prompt. Inr \<lparr>result_answer = Some ''42'', source_documents = None\<rparr>"
        "\<lparr>result_answer = Some ''42'', source_documents = None\<rparr>" "''42''"
        "''2026-01-01T00:00:00''" "empty_world\<lparr>data_file := Some (JsonText (JObject []))\<rparr>"
        "Exc ''AttributeError'' ([CHR 0x27] @ ''dict'' @ [CHR 0x27] @
           '' object has no attribute '' @ [CHR 0x27] @ ''append'' @ [CHR 0x27])"]
  by (simp add: answering_def plain_request_def empty_world_def question_with_history_def
      save_interaction_def load_conversations_def append_record_def)





text \<open>
  Claim C10. Every response the chat handler returns has its \<^verbatim>\<open>sources\<close> field present,
  as a list; when the chain's result has no \<^verbatim>\<open>source_documents\<close>, or an empty one, the
  field is the empty list.
\<close>

theorem chat_sources_always_list:
  "(\<forall>resp. fst (chat_with_doc build_qa_chain now request w) = Return resp \<longrightarrow>
       (\<exists>srcs. sources resp = Some srcs)) \<and>
   (build_qa_chain (doc_id request) = Inr qa_chain \<and>
    qa_chain (question_with_history request) = Inr result \<and>
    result_answer result = Some ans \<and>
    (source_documents result = None \<or> source_documents result = Some []) \<longrightarrow>
      fst (chat_with_doc build_qa_chain now request w) =
        Return \<lparr>answer = ans, sources = Some []\<rparr>)"
proof (intro conjI allI impI)
  fix resp
  assume "fst (chat_with_doc build_qa_chain now request w) = Return resp"
  then show "\<exists>srcs. sources resp = Some srcs"
    by (auto simp: chat_with_doc_def Let_def split: sum.splits option.splits)
next
  assume a: "build_qa_chain (doc_id request) = Inr qa_chain \<and>
    qa_chain (question_with_history request) = Inr result \<and>
    result_answer result = Some ans \<and>
    (source_documents result = None \<or> source_documents result = Some [])"
  then have "fst (chat_with_doc build_qa_chain now request w) =
     Return \<lparr>answer = ans,
             sources = Some (extract_sources []
               (case source_documents result of None \<Rightarrow> [] | Some docs \<Rightarrow> docs))\<rparr>"
    using chat_with_doc_return [of build_qa_chain request qa_chain result ans now w] by simp
  with a show "fst (chat_with_doc build_qa_chain now request w) =
      Return \<lparr>answer = ans, sources = Some []\<rparr>"
    by auto
qed

theorem chat_sources_always_list_witness:
  "fst (chat_with_doc (answering \<lparr>result_answer = Some ''42'', source_documents = None\<rparr>)
          ''2026-01-01T00:00:00'' plain_request empty_world) =
     Return \<lparr>answer = ''42'', sources = Some []\<rparr> \<and>
   fst (chat_with_doc (answering \<lparr>result_answer = Some ''42'', source_documents = Some []\<rparr>)
          ''2026-01-01T00:00:00'' plain_request empty_world) =
     Return \<lparr>answer = ''42'', sources = Some []\<rparr>"
  using chat_sources_always_list
    [of "answering \<lparr>result_answer = Some ''42'', source_documents = None\<rparr>"
        "''2026-01-01T00:00:00''" plain_request empty_world
        "\<lambda>prompt. Inr \<lparr>result_answer = Some ''42'', source_documents = None\<rparr>"
        "\<lparr>result_answer = Some ''42'', source_documents = None\<rparr>" "''42''"]
    chat_sources_always_list
    [of "answering \<lparr>result_answer = Some ''42'', source_documents = Some []\<rparr>"
        "''2026-01-01T00:00:00''" plain_request empty_world
        "\<lambda>prompt. Inr \<lparr>result_answer = Some ''42'', source_documents = Some []\<rparr>"
        "\<lparr>result_answer = Some ''42'', source_documents = Some []\<rparr>" "''42''"]
  by (simp add: answering_def)

end
